theory Spec2Isabelle
  imports Complex_Main
begin

section \<open>JavaScript numbers\<close>

text \<open>
  The scoring code of \<^verbatim>\<open>src/index.js\<close> computes with JavaScript numbers. A number is
  \<^verbatim>\<open>NaN\<close>, one of the two infinities, or a finite value. Finite values are carried by
  their exact rational value; the rounding of binary64 arithmetic is not part of the model.
  The program compares its inputs with integer constants and adds integer constants to
  the score; the only value it computes from an input is the product
  \<^verbatim>\<open>platformCount * 5\<close>, formed when \<^verbatim>\<open>2 <= platformCount < 4\<close>. So rounding can
  occur only for a non-integer \<open>platformCount\<close> in that interval; on every other input
  all intermediate values are small integers and the model is exact. The concrete
  evaluations below use integers and the half \<open>2.5\<close>, on which binary64 arithmetic is
  exact as well. Negative zero is identified with zero (the program never distinguishes
  them: both are falsy and compare equal).
\<close>

datatype jsnum = NaN | Infinity | NegInfinity | Num rat

text \<open>\<^verbatim>\<open>a <= b\<close>: false as soon as one side is \<^verbatim>\<open>NaN\<close>.\<close>

fun num_le :: "jsnum \<Rightarrow> jsnum \<Rightarrow> bool" where
  "num_le NaN b = False"
| "num_le a NaN = False"
| "num_le NegInfinity b = True"
| "num_le a Infinity = True"
| "num_le (Num x) (Num y) = (x \<le> y)"
| "num_le Infinity b = False"
| "num_le a NegInfinity = False"

text \<open>\<^verbatim>\<open>a >= b\<close> and \<^verbatim>\<open>a < b\<close>.\<close>

definition num_ge :: "jsnum \<Rightarrow> jsnum \<Rightarrow> bool" where
  "num_ge a b = num_le b a"

fun num_lt :: "jsnum \<Rightarrow> jsnum \<Rightarrow> bool" where
  "num_lt NaN b = False"
| "num_lt a NaN = False"
| "num_lt (Num x) (Num y) = (x < y)"
| "num_lt Infinity b = False"
| "num_lt a NegInfinity = False"
| "num_lt NegInfinity b = True"
| "num_lt a Infinity = True"

fun num_neg :: "jsnum \<Rightarrow> jsnum" where
  "num_neg NaN = NaN"
| "num_neg Infinity = NegInfinity"
| "num_neg NegInfinity = Infinity"
| "num_neg (Num x) = Num (- x)"

text \<open>\<^verbatim>\<open>a + b\<close>: opposite infinities give \<^verbatim>\<open>NaN\<close>.\<close>

fun num_add :: "jsnum \<Rightarrow> jsnum \<Rightarrow> jsnum" where
  "num_add NaN b = NaN"
| "num_add a NaN = NaN"
| "num_add (Num x) (Num y) = Num (x + y)"
| "num_add (Num x) b = b"
| "num_add a (Num y) = a"
| "num_add a b = (if a = b then a else NaN)"

text \<open>\<^verbatim>\<open>a * b\<close>: an infinity times zero gives \<^verbatim>\<open>NaN\<close>.\<close>

fun num_mul :: "jsnum \<Rightarrow> jsnum \<Rightarrow> jsnum" where
  "num_mul NaN b = NaN"
| "num_mul a NaN = NaN"
| "num_mul (Num x) (Num y) = Num (x * y)"
| "num_mul (Num x) b = (if x = 0 then NaN else if 0 < x then b else num_neg b)"
| "num_mul a (Num y) = (if y = 0 then NaN else if 0 < y then a else num_neg a)"
| "num_mul a b = (if a = b then Infinity else NegInfinity)"

text \<open>\<^verbatim>\<open>Math.min\<close> and \<^verbatim>\<open>Math.max\<close> of two arguments: \<^verbatim>\<open>NaN\<close> if either is.\<close>

definition Math_min :: "jsnum \<Rightarrow> jsnum \<Rightarrow> jsnum" where
  "Math_min a b = (if a = NaN \<or> b = NaN then NaN else if num_le a b then a else b)"

definition Math_max :: "jsnum \<Rightarrow> jsnum \<Rightarrow> jsnum" where
  "Math_max a b = (if a = NaN \<or> b = NaN then NaN else if num_le a b then b else a)"

text \<open>\<^verbatim>\<open>Number.isInteger\<close>: finite, and equal to its own floor.\<close>

fun isInteger :: "jsnum \<Rightarrow> bool" where
  "isInteger (Num x) = (of_int \<lfloor>x\<rfloor> = x)"
| "isInteger a = False"

text \<open>Truthiness of a number: \<^verbatim>\<open>0\<close> and \<^verbatim>\<open>NaN\<close> are falsy.\<close>

fun truthy :: "jsnum \<Rightarrow> bool" where
  "truthy NaN = False"
| "truthy (Num x) = (x \<noteq> 0)"
| "truthy a = True"

text \<open>
  \<^verbatim>\<open>v || d\<close> where \<^verbatim>\<open>v\<close> is a property read that may be \<^verbatim>\<open>undefined\<close>
  (\<open>None\<close>): the left operand when it is truthy, the right operand otherwise.
\<close>

definition or_num :: "jsnum option \<Rightarrow> jsnum \<Rightarrow> jsnum" where
  "or_num v d = (case v of None \<Rightarrow> d | Some x \<Rightarrow> if truthy x then x else d)"

definition or_bool :: "bool option \<Rightarrow> bool \<Rightarrow> bool" where
  "or_bool v d = (case v of None \<Rightarrow> d | Some b \<Rightarrow> if b then b else d)"

section \<open>Data model\<close>

text \<open>
  The \<^verbatim>\<open>arguments\<close> object of a tool call. Each field is typed as the tool's
  \<^verbatim>\<open>inputSchema\<close> declares it and may be absent (\<open>None\<close>, read as
  \<^verbatim>\<open>undefined\<close>).
\<close>

record args =
  brand :: "string option"
  currentScore :: "jsnum option"
  platformCount :: "jsnum option"
  hasWikidata :: "bool option"
  hasGoogleBusiness :: "bool option"
  hasSchemaMarkup :: "bool option"
  contentAge :: "jsnum option"
  hasComparisonContent :: "bool option"

text \<open>The empty arguments object \<^verbatim>\<open>{}\<close>: no field supplied.\<close>

definition no_arguments :: args where
  "no_arguments =
    \<lparr>brand = None, currentScore = None, platformCount = None, hasWikidata = None,
     hasGoogleBusiness = None, hasSchemaMarkup = None, contentAge = None,
     hasComparisonContent = None\<rparr>"

text \<open>The object literal handed to \<^verbatim>\<open>estimateScore\<close>.\<close>

record signals =
  platformCount :: jsnum
  hasWikidata :: bool
  hasGoogleBusiness :: bool
  hasSchemaMarkup :: bool
  contentAge :: jsnum
  hasComparisonContent :: bool

section \<open>The scoring function\<close>

text \<open>
  \<^verbatim>\<open>estimateScore\<close>, lines 33-50. The running variable \<^verbatim>\<open>score\<close> is rebound
  once per statement, in the order of the source.
\<close>

definition estimateScore :: "signals \<Rightarrow> jsnum" where
  "estimateScore signals =
    (let score = Num 20;
         score = (if num_ge (platformCount signals) (Num 4) then num_add score (Num 25)
                  else if num_ge (platformCount signals) (Num 2)
                       then num_add score (num_mul (platformCount signals) (Num 5))
                  else score);
         score = (if hasWikidata signals then num_add score (Num 10) else score);
         score = (if hasGoogleBusiness signals then num_add score (Num 8) else score);
         score = (if hasSchemaMarkup signals then num_add score (Num 10) else score);
         score = (if num_le (contentAge signals) (Num 6) then num_add score (Num 12)
                  else if num_le (contentAge signals) (Num 12) then num_add score (Num 8)
                  else score);
         score = (if hasComparisonContent signals then num_add score (Num 15) else score)
     in Math_min (Num 100) (Math_max (Num 0) score))"

text \<open>
  The amounts that lines 35-39 (platform diversity) and lines 43-47 (content freshness)
  add to the running score, as functions of the one field each of them reads.
\<close>

definition platformTerm :: "jsnum \<Rightarrow> jsnum" where
  "platformTerm pc =
    (if num_ge pc (Num 4) then Num 25
     else if num_ge pc (Num 2) then num_mul pc (Num 5)
     else Num 0)"

definition freshnessTerm :: "jsnum \<Rightarrow> jsnum" where
  "freshnessTerm age =
    (if num_le age (Num 6) then Num 12
     else if num_le age (Num 12) then Num 8
     else Num 0)"

text \<open>
  The amount a boolean signal of weight \<open>w\<close> adds (lines 40-42 and 48), and the six
  amounts in the order in which the source adds them to the base score 20.
\<close>

definition signalTerm :: "bool \<Rightarrow> rat \<Rightarrow> jsnum" where
  "signalTerm b w = (if b then Num w else Num 0)"

definition scoreTerms :: "signals \<Rightarrow> jsnum list" where
  "scoreTerms s =
    [platformTerm (platformCount s), signalTerm (hasWikidata s) 10,
     signalTerm (hasGoogleBusiness s) 8, signalTerm (hasSchemaMarkup s) 10,
     freshnessTerm (contentAge s), signalTerm (hasComparisonContent s) 15]"

section \<open>The tool handlers\<close>

text \<open>The rating chain of the \<^verbatim>\<open>estimate_ai_visibility\<close> case, lines 193-198.\<close>

definition rating_of :: "jsnum \<Rightarrow> string" where
  "rating_of score =
    (if num_ge score (Num 80) then ''excellent''
     else if num_ge score (Num 60) then ''good''
     else if num_ge score (Num 40) then ''moderate''
     else if num_ge score (Num 20) then ''low''
     else ''minimal'')"

text \<open>The object literal indexed by the rating, lines 207-213.\<close>

definition interpretations :: "(string \<times> string) list" where
  "interpretations =
    [(''excellent'', ''Dominant AI presence - frequently cited''),
     (''good'', ''Strong presence - regularly mentioned''),
     (''moderate'', ''Emerging presence - occasionally cited''),
     (''low'', ''Limited visibility - rarely mentioned''),
     (''minimal'', ''Effectively invisible to AI'')]"

text \<open>The object serialised by the \<^verbatim>\<open>estimate_ai_visibility\<close> case, lines 204-223
  (\<open>interpretation_text\<close> is its \<^verbatim>\<open>interpretation\<close> member; a lookup that finds
  no entry is \<open>None\<close>).\<close>

record estimate =
  estimatedTrustableScore :: jsnum
  rating :: string
  interpretation_text :: "string option"
  methodology :: string
  improvementTips :: "string list"
  source :: string

text \<open>The signals built from the arguments, lines 184-191.\<close>

definition signals_of_args :: "args \<Rightarrow> signals" where
  "signals_of_args a =
    \<lparr>platformCount = or_num (args.platformCount a) (Num 1),
     hasWikidata = or_bool (args.hasWikidata a) False,
     hasGoogleBusiness = or_bool (args.hasGoogleBusiness a) False,
     hasSchemaMarkup = or_bool (args.hasSchemaMarkup a) False,
     contentAge = or_num (args.contentAge a) (Num 12),
     hasComparisonContent = or_bool (args.hasComparisonContent a) False\<rparr>"

text \<open>The body of the \<^verbatim>\<open>estimate_ai_visibility\<close> case, lines 183-227.\<close>

definition estimate_ai_visibility :: "args \<Rightarrow> estimate" where
  "estimate_ai_visibility a =
    (let score = estimateScore (signals_of_args a);
         rating = rating_of score
     in \<lparr>estimatedTrustableScore = score,
         rating = rating,
         interpretation_text = map_of interpretations rating,
         methodology = ''Estimated using Trustable methodology. For accurate scoring, use trustablelabs.com'',
         improvementTips =
           (if num_lt score (Num 60) then
              [''Expand to 4+ platforms (2.8x visibility boost)'',
               ''Create Wikidata entity for entity recognition'',
               ''Add JSON-LD schema markup'',
               ''Create comparison/listicle content (32.5% of citations)'',
               ''Update content regularly (65% from past year)'']
            else [''Your AI visibility is strong. Focus on maintaining freshness and expanding platform presence.'']),
         source = ''Trustable Labs - https://trustablelabs.com''\<rparr>)"

text \<open>
  What a tool call yields. The three informational tools serialise fixed text; of their
  payloads only the echoed \<^verbatim>\<open>brand\<close> depends on the call, so the fixed text is
  not spelled out.
\<close>

datatype payload =
  TrustableScoreInfo "string option"
  | Estimate estimate
  | GeoRecommendations
  | ScoreExplanation

text \<open>
  A thrown exception: the \<^verbatim>\<open>Error\<close> of the default case with its message, or the
  \<^verbatim>\<open>TypeError\<close> of reading a property of an \<^verbatim>\<open>undefined\<close> arguments object.
\<close>

datatype error = Error string | TypeError

text \<open>
  The \<^verbatim>\<open>CallToolRequestSchema\<close> handler, lines 145-326. The request's
  \<^verbatim>\<open>arguments\<close> member is optional, so \<open>args\<close> may be \<open>None\<close>.
\<close>

definition callTool :: "string \<Rightarrow> args option \<Rightarrow> error + payload" where
  "callTool name args =
    (if name = ''get_trustable_score'' then
       (case args of None \<Rightarrow> Inl TypeError | Some a \<Rightarrow> Inr (TrustableScoreInfo (brand a)))
     else if name = ''estimate_ai_visibility'' then
       (case args of None \<Rightarrow> Inl TypeError | Some a \<Rightarrow> Inr (Estimate (estimate_ai_visibility a)))
     else if name = ''get_geo_recommendations'' then Inr GeoRecommendations
     else if name = ''explain_trustable_score'' then Inr ScoreExplanation
     else Inl (Error (''Unknown tool: '' @ name)))"

section \<open>The tool registry\<close>

datatype json_type = JString | JNumber | JBoolean

text \<open>
  A tool descriptor: its name and its \<^verbatim>\<open>inputSchema\<close> (the declared properties in
  order, and the required ones). The descriptive prose is left out.
\<close>

record tool =
  name :: string
  properties :: "(string \<times> json_type) list"
  required :: "string list"

text \<open>The \<^verbatim>\<open>ListToolsRequestSchema\<close> handler, lines 66-142.\<close>

definition listTools :: "tool list" where
  "listTools =
    [\<lparr>name = ''get_trustable_score'',
      properties = [(''brand'', JString)],
      required = [''brand'']\<rparr>,
     \<lparr>name = ''estimate_ai_visibility'',
      properties =
        [(''platformCount'', JNumber), (''hasWikidata'', JBoolean),
         (''hasGoogleBusiness'', JBoolean), (''hasSchemaMarkup'', JBoolean),
         (''contentAge'', JNumber), (''hasComparisonContent'', JBoolean)],
      required = [''platformCount'']\<rparr>,
     \<lparr>name = ''get_geo_recommendations'',
      properties = [(''currentScore'', JNumber)],
      required = []\<rparr>,
     \<lparr>name = ''explain_trustable_score'',
      properties = [],
      required = []\<rparr>]"

text \<open>
  The server: two request kinds, each answered by its handler. No handler reads or writes
  a variable outside its own call, so a run over a sequence of requests answers each one
  from the request alone.
\<close>

datatype request = ListToolsRequest | CallToolRequest string "args option"

datatype response = ToolList "tool list" | ToolResult payload | Failure error

definition handleRequest :: "request \<Rightarrow> response" where
  "handleRequest r =
    (case r of
       ListToolsRequest \<Rightarrow> ToolList listTools
     | CallToolRequest tool_name arguments \<Rightarrow>
         (case callTool tool_name arguments of Inl e \<Rightarrow> Failure e | Inr p \<Rightarrow> ToolResult p))"

fun serve :: "request list \<Rightarrow> response list" where
  "serve [] = []"
| "serve (r # rs) = handleRequest r # serve rs"

section \<open>The score is the unclamped sum of its terms\<close>

lemma platformTerm_Num: "\<exists>p. platformTerm pc = Num p \<and> 0 \<le> p \<and> p \<le> 25"
  by (cases pc) (auto simp: platformTerm_def num_ge_def)

lemma freshnessTerm_Num: "\<exists>f. freshnessTerm a = Num f \<and> 0 \<le> f \<and> f \<le> 12"
  by (cases a) (auto simp: freshnessTerm_def)

lemma signalTerm_Num: "0 \<le> w \<Longrightarrow> \<exists>r. signalTerm b w = Num r \<and> 0 \<le> r \<and> r \<le> w"
  by (simp add: signalTerm_def)

lemma clamp_id:
  "0 \<le> r \<Longrightarrow> r \<le> 100 \<Longrightarrow> Math_min (Num 100) (Math_max (Num 0) (Num r)) = Num r"
  by (auto simp: Math_min_def Math_max_def)

lemma estimateScore_clamp:
  "estimateScore s =
     Math_min (Num 100) (Math_max (Num 0) (foldl num_add (Num 20) (scoreTerms s)))"
proof -
  obtain p where p: "platformTerm (platformCount s) = Num p"
    using platformTerm_Num by blast
  obtain f where f: "freshnessTerm (contentAge s) = Num f"
    using freshnessTerm_Num by blast
  show ?thesis
    using p f unfolding estimateScore_def Let_def signalTerm_def scoreTerms_def
    by (simp add: platformTerm_def freshnessTerm_def split: if_splits)
qed

lemma sum_Num:
  "\<exists>r. foldl num_add (Num 20) (scoreTerms s) = Num r \<and> 20 \<le> r \<and> r \<le> 100"
proof -
  obtain p where p: "platformTerm (platformCount s) = Num p" "0 \<le> p" "p \<le> 25"
    using platformTerm_Num by blast
  obtain f where f: "freshnessTerm (contentAge s) = Num f" "0 \<le> f" "f \<le> 12"
    using freshnessTerm_Num by blast
  obtain w where w: "signalTerm (hasWikidata s) 10 = Num w" "0 \<le> w" "w \<le> 10"
    using signalTerm_Num [of 10] by force
  obtain g where g: "signalTerm (hasGoogleBusiness s) 8 = Num g" "0 \<le> g" "g \<le> 8"
    using signalTerm_Num [of 8] by force
  obtain m where m: "signalTerm (hasSchemaMarkup s) 10 = Num m" "0 \<le> m" "m \<le> 10"
    using signalTerm_Num [of 10] by force
  obtain c where c: "signalTerm (hasComparisonContent s) 15 = Num c" "0 \<le> c" "c \<le> 15"
    using signalTerm_Num [of 15] by force
  have "foldl num_add (Num 20) (scoreTerms s) = Num (20 + p + w + g + m + f + c)"
    by (simp add: scoreTerms_def p f w g m c)
  moreover have "20 \<le> 20 + p + w + g + m + f + c" "20 + p + w + g + m + f + c \<le> 100"
    using p f w g m c by linarith+
  ultimately show ?thesis by blast
qed

lemma estimateScore_sum: "estimateScore s = foldl num_add (Num 20) (scoreTerms s)"
proof -
  obtain r where r: "foldl num_add (Num 20) (scoreTerms s) = Num r" "20 \<le> r" "r \<le> 100"
    using sum_Num by blast
  show ?thesis using r by (simp add: estimateScore_clamp clamp_id)
qed

lemma estimateScore_Num: "\<exists>r. estimateScore s = Num r \<and> 20 \<le> r \<and> r \<le> 100"
  using sum_Num [of s] by (simp add: estimateScore_sum)

section \<open>Integer results\<close>

lemma isInteger_iff: "isInteger (Num x) \<longleftrightarrow> x \<in> \<int>"
  by (metis isInteger.simps(1) Ints_of_int of_int_floor)

lemma isInteger_add:
  "isInteger a \<Longrightarrow> isInteger b \<Longrightarrow> isInteger (num_add a b)"
  by (cases a; cases b) (simp_all add: isInteger_iff del: isInteger.simps(1))

lemma signalTerm_integer: "w \<in> \<int> \<Longrightarrow> isInteger (signalTerm b w)"
  by (simp add: signalTerm_def isInteger_iff del: isInteger.simps(1))

lemma freshnessTerm_integer: "isInteger (freshnessTerm a)"
  by (simp add: freshnessTerm_def)

lemma platformTerm_integer:
  "isInteger pc \<or> \<not> (num_ge pc (Num 2) \<and> num_lt pc (Num 4)) \<Longrightarrow>
   isInteger (platformTerm pc)"
  by (cases pc)
     (auto simp: platformTerm_def num_ge_def isInteger_iff simp del: isInteger.simps(1))

lemma estimateScore_integer:
  assumes "isInteger (platformCount s) \<or>
           \<not> (num_ge (platformCount s) (Num 2) \<and> num_lt (platformCount s) (Num 4))"
  shows "isInteger (estimateScore s)"
proof -
  have "isInteger (platformTerm (platformCount s))"
    using assms by (rule platformTerm_integer)
  then show ?thesis
    unfolding estimateScore_sum scoreTerms_def foldl.simps
    by (intro isInteger_add signalTerm_integer freshnessTerm_integer)
       (simp_all add: isInteger_iff del: isInteger.simps(1))
qed

section \<open>Range of the score\<close>

text \<open>
  C1 (as amended). For every signals record, whatever numbers \<open>platformCount\<close> and
  \<open>contentAge\<close> are (\<^verbatim>\<open>NaN\<close> and the infinities included) and whatever the four
  booleans are, \<^verbatim>\<open>estimateScore\<close> returns a number between 0 and 100. The result is
  an integer whenever \<open>platformCount\<close> is an integer or lies outside the interval from 2
  (included) to 4 (excluded), the only interval in which the count itself is multiplied
  into the score.
\<close>

theorem estimateScore_range:
  "num_le (Num 0) (estimateScore s) \<and> num_le (estimateScore s) (Num 100) \<and>
   (isInteger (platformCount s) \<or>
    \<not> (num_ge (platformCount s) (Num 2) \<and> num_lt (platformCount s) (Num 4))
      \<longrightarrow> isInteger (estimateScore s))"
proof -
  obtain r where r: "estimateScore s = Num r" "20 \<le> r" "r \<le> 100"
    using estimateScore_Num by blast
  show ?thesis
    using r(2,3) estimateScore_integer [of s] by (simp add: r(1) del: isInteger.simps(1))
qed

text \<open>
  The theorem at three platforms, a Wikidata entity and seven-month-old content: the
  count is an integer, and the score is the integer 53.
\<close>

theorem estimateScore_range_witness:
  "isInteger (Num 3) \<and>
   num_le (Num 0) (estimateScore \<lparr>platformCount = Num 3, hasWikidata = True,
      hasGoogleBusiness = False, hasSchemaMarkup = False, contentAge = Num 7,
      hasComparisonContent = False\<rparr>) \<and>
   num_le (estimateScore \<lparr>platformCount = Num 3, hasWikidata = True,
      hasGoogleBusiness = False, hasSchemaMarkup = False, contentAge = Num 7,
      hasComparisonContent = False\<rparr>) (Num 100) \<and>
   isInteger (estimateScore \<lparr>platformCount = Num 3, hasWikidata = True,
      hasGoogleBusiness = False, hasSchemaMarkup = False, contentAge = Num 7,
      hasComparisonContent = False\<rparr>) \<and>
   estimateScore \<lparr>platformCount = Num 3, hasWikidata = True,
      hasGoogleBusiness = False, hasSchemaMarkup = False, contentAge = Num 7,
      hasComparisonContent = False\<rparr> = Num 53"
  using estimateScore_range [of "\<lparr>platformCount = Num 3, hasWikidata = True,
      hasGoogleBusiness = False, hasSchemaMarkup = False, contentAge = Num 7,
      hasComparisonContent = False\<rparr>"]
  by (simp add: estimateScore_def num_ge_def Math_min_def Math_max_def)

text \<open>
  C1 as stated fails: with \<open>platformCount = 2.5\<close> (and the other fields at their
  defaults) the score is \<open>20 + 2.5 * 5 + 8 = 40.5\<close>, which is not an integer. All three
  operations are exact in binary64.
\<close>

theorem estimateScore_fractional_counterexample:
  "estimateScore \<lparr>platformCount = Num (5 / 2), hasWikidata = False,
      hasGoogleBusiness = False, hasSchemaMarkup = False, contentAge = Num 12,
      hasComparisonContent = False\<rparr> = Num (81 / 2) \<and> \<not> isInteger (Num (81 / 2))"
proof -
  have "(81 / 2 :: rat) \<notin> \<int>"
  proof
    assume "(81 / 2 :: rat) \<in> \<int>"
    then obtain k :: int where "(81 / 2 :: rat) = of_int k"
      by (auto elim: Ints_cases)
    then have "(81 :: rat) = of_int (2 * k)" by simp
    then have "(81 :: int) = 2 * k" by (metis of_int_eq_iff of_int_numeral)
    then show False by presburger
  qed
  then have "\<not> isInteger (Num (81 / 2))"
    by (simp only: isInteger_iff not_False_eq_True)
  then show ?thesis
    by (simp add: estimateScore_def num_ge_def Math_min_def Math_max_def
        del: isInteger.simps(1))
qed

section \<open>The two tiered terms\<close>

lemma estimateScore_platform:
  "estimateScore (s\<lparr>platformCount := pc\<rparr>) =
     num_add (foldl num_add (Num 20)
        [signalTerm (hasWikidata s) 10, signalTerm (hasGoogleBusiness s) 8,
         signalTerm (hasSchemaMarkup s) 10, freshnessTerm (contentAge s),
         signalTerm (hasComparisonContent s) 15]) (platformTerm pc)"
proof -
  obtain p where p: "platformTerm pc = Num p"
    using platformTerm_Num by blast
  obtain f where f: "freshnessTerm (contentAge s) = Num f"
    using freshnessTerm_Num by blast
  show ?thesis
    by (simp add: estimateScore_sum scoreTerms_def signalTerm_def p f)
qed

lemma estimateScore_freshness:
  "estimateScore (s\<lparr>contentAge := age\<rparr>) =
     num_add (foldl num_add (Num 20)
        [platformTerm (platformCount s), signalTerm (hasWikidata s) 10,
         signalTerm (hasGoogleBusiness s) 8, signalTerm (hasSchemaMarkup s) 10,
         signalTerm (hasComparisonContent s) 15]) (freshnessTerm age)"
proof -
  obtain p where p: "platformTerm (platformCount s) = Num p"
    using platformTerm_Num by blast
  obtain f where f: "freshnessTerm age = Num f"
    using freshnessTerm_Num by blast
  show ?thesis
    by (simp add: estimateScore_sum scoreTerms_def signalTerm_def p f)
qed

lemma sum_without_platform_Num:
  "\<exists>r. foldl num_add (Num 20)
         [signalTerm w 10, signalTerm g 8, signalTerm m 10, freshnessTerm age,
          signalTerm c 15] = Num r"
proof -
  obtain f where f: "freshnessTerm age = Num f"
    using freshnessTerm_Num by blast
  show ?thesis by (simp add: signalTerm_def f)
qed

lemma sum_without_freshness_Num:
  "\<exists>r. foldl num_add (Num 20)
         [platformTerm pc, signalTerm w 10, signalTerm g 8, signalTerm m 10,
          signalTerm c 15] = Num r"
proof -
  obtain p where p: "platformTerm pc = Num p"
    using platformTerm_Num by blast
  show ?thesis by (simp add: signalTerm_def p)
qed

text \<open>
  C4. Holding the other five signals fixed, the score at \<open>platformCount = 0\<close> is the base
  20 plus the other five terms (the platform term adds nothing), and relative to it the
  score is unchanged at \<open>platformCount = 1\<close>, at every negative count and at
  \<^verbatim>\<open>NaN\<close> and \<^verbatim>\<open>-Infinity\<close>; it is 10 higher at 2, 15 higher at 3, 25 higher at 4, and
  a flat 25 higher at every count of 4 or more (10 and \<^verbatim>\<open>Infinity\<close> included).
\<close>

theorem platform_tiering:
  "estimateScore (s\<lparr>platformCount := Num 0\<rparr>) =
     foldl num_add (Num 20)
       [signalTerm (hasWikidata s) 10, signalTerm (hasGoogleBusiness s) 8,
        signalTerm (hasSchemaMarkup s) 10, freshnessTerm (contentAge s),
        signalTerm (hasComparisonContent s) 15] \<and>
   estimateScore (s\<lparr>platformCount := Num 1\<rparr>) =
     estimateScore (s\<lparr>platformCount := Num 0\<rparr>) \<and>
   (q < 0 \<longrightarrow>
      estimateScore (s\<lparr>platformCount := Num q\<rparr>) =
        estimateScore (s\<lparr>platformCount := Num 0\<rparr>)) \<and>
   estimateScore (s\<lparr>platformCount := NegInfinity\<rparr>) =
     estimateScore (s\<lparr>platformCount := Num 0\<rparr>) \<and>
   estimateScore (s\<lparr>platformCount := NaN\<rparr>) =
     estimateScore (s\<lparr>platformCount := Num 0\<rparr>) \<and>
   estimateScore (s\<lparr>platformCount := Num 2\<rparr>) =
     num_add (estimateScore (s\<lparr>platformCount := Num 0\<rparr>)) (Num 10) \<and>
   estimateScore (s\<lparr>platformCount := Num 3\<rparr>) =
     num_add (estimateScore (s\<lparr>platformCount := Num 0\<rparr>)) (Num 15) \<and>
   estimateScore (s\<lparr>platformCount := Num 4\<rparr>) =
     num_add (estimateScore (s\<lparr>platformCount := Num 0\<rparr>)) (Num 25) \<and>
   (4 \<le> q' \<longrightarrow>
      estimateScore (s\<lparr>platformCount := Num q'\<rparr>) =
        num_add (estimateScore (s\<lparr>platformCount := Num 0\<rparr>)) (Num 25)) \<and>
   estimateScore (s\<lparr>platformCount := Num 10\<rparr>) =
     num_add (estimateScore (s\<lparr>platformCount := Num 0\<rparr>)) (Num 25) \<and>
   estimateScore (s\<lparr>platformCount := Infinity\<rparr>) =
     num_add (estimateScore (s\<lparr>platformCount := Num 0\<rparr>)) (Num 25)"
  using sum_without_platform_Num [of "hasWikidata s" "hasGoogleBusiness s"
      "hasSchemaMarkup s" "contentAge s" "hasComparisonContent s"]
  unfolding estimateScore_platform
  by (auto simp: platformTerm_def num_ge_def)

text \<open>
  The theorem at a negative count (\<open>-3\<close>) and at a count above the threshold (7), with a
  Wikidata entity and stale content: 30, the same as at zero platforms, and 55.
\<close>

theorem platform_tiering_witness:
  "(- 3 :: rat) < 0 \<and> (4 :: rat) \<le> 7 \<and>
   estimateScore \<lparr>platformCount = Num (- 3), hasWikidata = True, hasGoogleBusiness = False,
      hasSchemaMarkup = False, contentAge = Num 13, hasComparisonContent = False\<rparr> = Num 30 \<and>
   estimateScore \<lparr>platformCount = Num 0, hasWikidata = True, hasGoogleBusiness = False,
      hasSchemaMarkup = False, contentAge = Num 13, hasComparisonContent = False\<rparr> = Num 30 \<and>
   estimateScore \<lparr>platformCount = Num 7, hasWikidata = True, hasGoogleBusiness = False,
      hasSchemaMarkup = False, contentAge = Num 13, hasComparisonContent = False\<rparr> = Num 55"
  using platform_tiering [of "\<lparr>platformCount = Num 0, hasWikidata = True,
      hasGoogleBusiness = False, hasSchemaMarkup = False, contentAge = Num 13,
      hasComparisonContent = False\<rparr>" "- 3" 7]
  by (simp add: signalTerm_def freshnessTerm_def)

text \<open>
  C5. Holding the other five signals fixed, the score at \<open>contentAge = 13\<close> is the base 20
  plus the other five terms (the freshness term adds nothing), and relative to it the
  score is 12 higher whenever \<open>contentAge \<le> 6\<close> (6 itself and \<^verbatim>\<open>-Infinity\<close> included),
  8 higher whenever \<open>6 < contentAge \<le> 12\<close> (7 and 12 included), and unchanged whenever
  \<open>contentAge > 12\<close> (and at \<^verbatim>\<open>Infinity\<close> and \<^verbatim>\<open>NaN\<close>).
\<close>

theorem freshness_tiering:
  "estimateScore (s\<lparr>contentAge := Num 13\<rparr>) =
     foldl num_add (Num 20)
       [platformTerm (platformCount s), signalTerm (hasWikidata s) 10,
        signalTerm (hasGoogleBusiness s) 8, signalTerm (hasSchemaMarkup s) 10,
        signalTerm (hasComparisonContent s) 15] \<and>
   (a \<le> 6 \<longrightarrow>
      estimateScore (s\<lparr>contentAge := Num a\<rparr>) =
        num_add (estimateScore (s\<lparr>contentAge := Num 13\<rparr>)) (Num 12)) \<and>
   (6 < b \<and> b \<le> 12 \<longrightarrow>
      estimateScore (s\<lparr>contentAge := Num b\<rparr>) =
        num_add (estimateScore (s\<lparr>contentAge := Num 13\<rparr>)) (Num 8)) \<and>
   (12 < c \<longrightarrow>
      estimateScore (s\<lparr>contentAge := Num c\<rparr>) =
        estimateScore (s\<lparr>contentAge := Num 13\<rparr>)) \<and>
   estimateScore (s\<lparr>contentAge := Num 6\<rparr>) =
     num_add (estimateScore (s\<lparr>contentAge := Num 13\<rparr>)) (Num 12) \<and>
   estimateScore (s\<lparr>contentAge := Num 7\<rparr>) =
     num_add (estimateScore (s\<lparr>contentAge := Num 13\<rparr>)) (Num 8) \<and>
   estimateScore (s\<lparr>contentAge := Num 12\<rparr>) =
     num_add (estimateScore (s\<lparr>contentAge := Num 13\<rparr>)) (Num 8) \<and>
   estimateScore (s\<lparr>contentAge := NegInfinity\<rparr>) =
     num_add (estimateScore (s\<lparr>contentAge := Num 13\<rparr>)) (Num 12) \<and>
   estimateScore (s\<lparr>contentAge := Infinity\<rparr>) =
     estimateScore (s\<lparr>contentAge := Num 13\<rparr>) \<and>
   estimateScore (s\<lparr>contentAge := NaN\<rparr>) =
     estimateScore (s\<lparr>contentAge := Num 13\<rparr>)"
  using sum_without_freshness_Num [of "platformCount s" "hasWikidata s"
      "hasGoogleBusiness s" "hasSchemaMarkup s" "hasComparisonContent s"]
  unfolding estimateScore_freshness
  by (auto simp: freshnessTerm_def)

text \<open>
  The theorem at one age of each tier (3, 9 and 24 months), with one platform and no
  boolean signal: 32, 28 and 20.
\<close>

theorem freshness_tiering_witness:
  "(3 :: rat) \<le> 6 \<and> (6 :: rat) < 9 \<and> (9 :: rat) \<le> 12 \<and> (12 :: rat) < 24 \<and>
   estimateScore \<lparr>platformCount = Num 1, hasWikidata = False, hasGoogleBusiness = False,
      hasSchemaMarkup = False, contentAge = Num 3, hasComparisonContent = False\<rparr> = Num 32 \<and>
   estimateScore \<lparr>platformCount = Num 1, hasWikidata = False, hasGoogleBusiness = False,
      hasSchemaMarkup = False, contentAge = Num 9, hasComparisonContent = False\<rparr> = Num 28 \<and>
   estimateScore \<lparr>platformCount = Num 1, hasWikidata = False, hasGoogleBusiness = False,
      hasSchemaMarkup = False, contentAge = Num 24, hasComparisonContent = False\<rparr> = Num 20"
  using freshness_tiering [of "\<lparr>platformCount = Num 1, hasWikidata = False,
      hasGoogleBusiness = False, hasSchemaMarkup = False, contentAge = Num 13,
      hasComparisonContent = False\<rparr>" 3 9 24]
  by (simp add: signalTerm_def platformTerm_def num_ge_def)

section \<open>Monotonicity and the lower bound\<close>

text \<open>
  C7. For every signals record and each of the four boolean signals, the score with that
  signal true is greater than or equal to the score with it false, all other fields
  being the same.
\<close>

theorem boolean_monotone:
  "num_le (estimateScore (s\<lparr>hasWikidata := False\<rparr>))
          (estimateScore (s\<lparr>hasWikidata := True\<rparr>)) \<and>
   num_le (estimateScore (s\<lparr>hasGoogleBusiness := False\<rparr>))
          (estimateScore (s\<lparr>hasGoogleBusiness := True\<rparr>)) \<and>
   num_le (estimateScore (s\<lparr>hasSchemaMarkup := False\<rparr>))
          (estimateScore (s\<lparr>hasSchemaMarkup := True\<rparr>)) \<and>
   num_le (estimateScore (s\<lparr>hasComparisonContent := False\<rparr>))
          (estimateScore (s\<lparr>hasComparisonContent := True\<rparr>))"
proof -
  obtain p where p: "platformTerm (platformCount s) = Num p"
    using platformTerm_Num by blast
  obtain f where f: "freshnessTerm (contentAge s) = Num f"
    using freshnessTerm_Num by blast
  show ?thesis
    by (simp add: estimateScore_sum scoreTerms_def signalTerm_def p f)
qed

text \<open>
  C10. For every signals record the score is at least 20. The sum that reaches the clamp
  is already at least 20, so taking its maximum with 0 leaves it unchanged; the platform
  term and the freshness term are never negative. Consequently the rating computed by
  the \<^verbatim>\<open>estimate_ai_visibility\<close> handler is never \<^verbatim>\<open>minimal\<close>, whatever the
  arguments.
\<close>

theorem score_at_least_base:
  "num_ge (estimateScore s) (Num 20) \<and>
   Math_max (Num 0) (foldl num_add (Num 20) (scoreTerms s)) =
     foldl num_add (Num 20) (scoreTerms s) \<and>
   num_ge (platformTerm pc) (Num 0) \<and> num_ge (freshnessTerm age) (Num 0) \<and>
   rating (estimate_ai_visibility a) \<noteq> ''minimal''"
proof -
  obtain r where r: "foldl num_add (Num 20) (scoreTerms s) = Num r" "20 \<le> r"
    using sum_Num by blast
  obtain r' where r': "estimateScore (signals_of_args a) = Num r'" "20 \<le> r'"
    using estimateScore_Num by blast
  obtain p where p: "platformTerm pc = Num p" "0 \<le> p"
    using platformTerm_Num by blast
  obtain f where f: "freshnessTerm age = Num f" "0 \<le> f"
    using freshnessTerm_Num by blast
  have "rating (estimate_ai_visibility a) \<noteq> ''minimal''"
    using r'(2)
    by (simp add: estimate_ai_visibility_def Let_def r'(1) rating_of_def num_ge_def)
  then show ?thesis
    using r p f by (simp add: estimateScore_sum num_ge_def Math_max_def)
qed

section \<open>The \<^verbatim>\<open>estimate_ai_visibility\<close> handler\<close>

text \<open>
  What \<^verbatim>\<open>||\<close> makes of the arguments: a boolean signal is true exactly when it was
  supplied as true; a numeric field keeps a supplied value only when that value is
  truthy, and takes the default when it is absent, \<open>0\<close> or \<^verbatim>\<open>NaN\<close>.
\<close>

lemma signals_of_args_truthy:
  "signals_of_args a =
     \<lparr>platformCount = (case args.platformCount a of
                         Some x \<Rightarrow> if truthy x then x else Num 1 | None \<Rightarrow> Num 1),
      hasWikidata = (args.hasWikidata a = Some True),
      hasGoogleBusiness = (args.hasGoogleBusiness a = Some True),
      hasSchemaMarkup = (args.hasSchemaMarkup a = Some True),
      contentAge = (case args.contentAge a of
                      Some x \<Rightarrow> if truthy x then x else Num 12 | None \<Rightarrow> Num 12),
      hasComparisonContent = (args.hasComparisonContent a = Some True)\<rparr>"
  by (auto simp: signals_of_args_def or_num_def or_bool_def split: option.splits)

text \<open>
  C2, evaluated where it fails. Called with \<^verbatim>\<open>{platformCount: 4, contentAge: 0}\<close>, the
  handler scores a record whose \<open>contentAge\<close> is the default 12, not the supplied 0, and
  reports 53. \<^verbatim>\<open>estimateScore\<close> on the record with the supplied 0 gives 57.
\<close>

theorem falsy_contentAge_replaced:
  "signals_of_args (no_arguments\<lparr>args.platformCount := Some (Num 4),
                                 args.contentAge := Some (Num 0)\<rparr>) =
     \<lparr>platformCount = Num 4, hasWikidata = False, hasGoogleBusiness = False,
      hasSchemaMarkup = False, contentAge = Num 12, hasComparisonContent = False\<rparr> \<and>
   estimatedTrustableScore
     (estimate_ai_visibility (no_arguments\<lparr>args.platformCount := Some (Num 4),
                                            args.contentAge := Some (Num 0)\<rparr>)) = Num 53 \<and>
   estimateScore \<lparr>platformCount = Num 4, hasWikidata = False, hasGoogleBusiness = False,
      hasSchemaMarkup = False, contentAge = Num 0, hasComparisonContent = False\<rparr> = Num 57"
  by (simp add: signals_of_args_def no_arguments_def or_num_def or_bool_def
      estimate_ai_visibility_def estimateScore_def num_ge_def Math_min_def Math_max_def
      Let_def)

text \<open>
  C3 (as amended). Calling \<^verbatim>\<open>estimate_ai_visibility\<close> with no optional field supplied,
  with \<open>platformCount\<close> either absent or 1, yields score 28 (the base 20 plus 8 for the
  default content age of 12 months) and rating \<^verbatim>\<open>low\<close>.
\<close>

theorem default_call_score:
  "callTool ''estimate_ai_visibility'' (Some no_arguments) =
     Inr (Estimate (estimate_ai_visibility no_arguments)) \<and>
   estimatedTrustableScore (estimate_ai_visibility no_arguments) = Num 28 \<and>
   rating (estimate_ai_visibility no_arguments) = ''low'' \<and>
   estimatedTrustableScore
     (estimate_ai_visibility (no_arguments\<lparr>args.platformCount := Some (Num 1)\<rparr>)) =
       Num 28 \<and>
   rating (estimate_ai_visibility (no_arguments\<lparr>args.platformCount := Some (Num 1)\<rparr>)) =
     ''low''"
  by (simp add: callTool_def signals_of_args_def no_arguments_def or_num_def or_bool_def
      estimate_ai_visibility_def estimateScore_def num_ge_def Math_min_def Math_max_def
      rating_of_def Let_def)

text \<open>
  C3 as stated fails: the call with no field supplied does not yield score 20 with
  rating \<^verbatim>\<open>minimal\<close>.
\<close>

theorem default_call_counterexample:
  "\<not> (estimatedTrustableScore (estimate_ai_visibility no_arguments) = Num 20 \<and>
      rating (estimate_ai_visibility no_arguments) = ''minimal'')"
  by (simp add: signals_of_args_def no_arguments_def or_num_def or_bool_def
      estimate_ai_visibility_def estimateScore_def num_ge_def Math_min_def Math_max_def
      rating_of_def Let_def)

text \<open>
  C6 (as amended). The rating of a finite score \<open>x\<close> is \<^verbatim>\<open>excellent\<close> exactly when
  \<open>x \<ge> 80\<close>, \<^verbatim>\<open>good\<close> exactly when \<open>60 \<le> x < 80\<close>, \<^verbatim>\<open>moderate\<close> exactly when
  \<open>40 \<le> x < 60\<close>, \<^verbatim>\<open>low\<close> exactly when \<open>20 \<le> x < 40\<close> and \<^verbatim>\<open>minimal\<close> exactly when
  \<open>x < 20\<close>: five half-open bands that cover every score, integer or not. On an integer
  score \<open>n\<close> they are the bands \<open>n \<ge> 80\<close>, \<open>60 \<le> n \<le> 79\<close>, \<open>40 \<le> n \<le> 59\<close>,
  \<open>20 \<le> n \<le> 39\<close> and \<open>n \<le> 19\<close>. The rating the handler reports is this rating of the
  score it reports.
\<close>

theorem rating_partition:
  "(rating_of (Num x) = ''excellent'' \<longleftrightarrow> 80 \<le> x) \<and>
   (rating_of (Num x) = ''good'' \<longleftrightarrow> 60 \<le> x \<and> x < 80) \<and>
   (rating_of (Num x) = ''moderate'' \<longleftrightarrow> 40 \<le> x \<and> x < 60) \<and>
   (rating_of (Num x) = ''low'' \<longleftrightarrow> 20 \<le> x \<and> x < 40) \<and>
   (rating_of (Num x) = ''minimal'' \<longleftrightarrow> x < 20) \<and>
   (rating_of (Num (of_int n)) = ''excellent'' \<longleftrightarrow> 80 \<le> n) \<and>
   (rating_of (Num (of_int n)) = ''good'' \<longleftrightarrow> 60 \<le> n \<and> n \<le> 79) \<and>
   (rating_of (Num (of_int n)) = ''moderate'' \<longleftrightarrow> 40 \<le> n \<and> n \<le> 59) \<and>
   (rating_of (Num (of_int n)) = ''low'' \<longleftrightarrow> 20 \<le> n \<and> n \<le> 39) \<and>
   (rating_of (Num (of_int n)) = ''minimal'' \<longleftrightarrow> n \<le> 19) \<and>
   rating (estimate_ai_visibility a) =
     rating_of (estimatedTrustableScore (estimate_ai_visibility a))"
proof -
  have le: "\<And>k. ((numeral k :: rat) \<le> of_int n) = (numeral k \<le> n)"
    by (metis of_int_le_iff of_int_numeral)
  have finite_scores:
    "(rating_of (Num x) = ''excellent'' \<longleftrightarrow> 80 \<le> x) \<and>
     (rating_of (Num x) = ''good'' \<longleftrightarrow> 60 \<le> x \<and> x < 80) \<and>
     (rating_of (Num x) = ''moderate'' \<longleftrightarrow> 40 \<le> x \<and> x < 60) \<and>
     (rating_of (Num x) = ''low'' \<longleftrightarrow> 20 \<le> x \<and> x < 40) \<and>
     (rating_of (Num x) = ''minimal'' \<longleftrightarrow> x < 20)"
    by (auto simp: rating_of_def num_ge_def)
  have integer_scores:
    "(rating_of (Num (of_int n)) = ''excellent'' \<longleftrightarrow> 80 \<le> n) \<and>
     (rating_of (Num (of_int n)) = ''good'' \<longleftrightarrow> 60 \<le> n \<and> n \<le> 79) \<and>
     (rating_of (Num (of_int n)) = ''moderate'' \<longleftrightarrow> 40 \<le> n \<and> n \<le> 59) \<and>
     (rating_of (Num (of_int n)) = ''low'' \<longleftrightarrow> 20 \<le> n \<and> n \<le> 39) \<and>
     (rating_of (Num (of_int n)) = ''minimal'' \<longleftrightarrow> n \<le> 19)"
    by (simp add: rating_of_def num_ge_def le)
  have handler:
    "rating (estimate_ai_visibility a) =
       rating_of (estimatedTrustableScore (estimate_ai_visibility a))"
    by (simp add: estimate_ai_visibility_def Let_def)
  from finite_scores integer_scores handler show ?thesis by blast
qed

text \<open>
  The theorem at the nine boundary scores 80, 79, 60, 59, 40, 39, 20, 19 and 0, and at
  the non-integer scores 79.5, 60.5 and 19.5.
\<close>

theorem rating_partition_witness:
  "rating_of (Num 80) = ''excellent'' \<and> rating_of (Num 79) = ''good'' \<and>
   rating_of (Num 60) = ''good'' \<and> rating_of (Num 59) = ''moderate'' \<and>
   rating_of (Num 40) = ''moderate'' \<and> rating_of (Num 39) = ''low'' \<and>
   rating_of (Num 20) = ''low'' \<and> rating_of (Num 19) = ''minimal'' \<and>
   rating_of (Num 0) = ''minimal'' \<and> rating_of (Num (159 / 2)) = ''good'' \<and>
   rating_of (Num (121 / 2)) = ''good'' \<and> rating_of (Num (39 / 2)) = ''minimal''"
  using rating_partition [where x = 80] rating_partition [where x = 79]
    rating_partition [where x = 60] rating_partition [where x = 59]
    rating_partition [where x = 40] rating_partition [where x = 39]
    rating_partition [where x = 20] rating_partition [where x = 19]
    rating_partition [where x = 0] rating_partition [where x = "159 / 2"]
    rating_partition [where x = "121 / 2"] rating_partition [where x = "39 / 2"]
  by simp

text \<open>
  C6 as stated fails: the five closed bands do not cover the scores the handler reports.
  Called with \<^verbatim>\<open>{platformCount: 2.5, hasWikidata: true, hasSchemaMarkup: true,
  contentAge: 6, hasComparisonContent: true}\<close> the handler reports the score
  \<open>20 + 12.5 + 10 + 10 + 12 + 15 = 79.5\<close> (every step exact in binary64) with rating
  \<^verbatim>\<open>good\<close>; 79.5 lies in [0,100] and in none of the bands \<open>\<ge> 80\<close>, \<open>60..79\<close>,
  \<open>40..59\<close>, \<open>20..39\<close>, \<open>\<le> 19\<close>.
\<close>

theorem rating_closed_bands_counterexample:
  "estimatedTrustableScore
     (estimate_ai_visibility
        (no_arguments\<lparr>args.platformCount := Some (Num (5 / 2)),
                       args.hasWikidata := Some True, args.hasSchemaMarkup := Some True,
                       args.contentAge := Some (Num 6),
                       args.hasComparisonContent := Some True\<rparr>)) = Num (159 / 2) \<and>
   rating
     (estimate_ai_visibility
        (no_arguments\<lparr>args.platformCount := Some (Num (5 / 2)),
                       args.hasWikidata := Some True, args.hasSchemaMarkup := Some True,
                       args.contentAge := Some (Num 6),
                       args.hasComparisonContent := Some True\<rparr>)) = ''good'' \<and>
   (0 :: rat) \<le> 159 / 2 \<and> (159 / 2 :: rat) \<le> 100 \<and>
   \<not> ((80 :: rat) \<le> 159 / 2 \<or>
      ((60 :: rat) \<le> 159 / 2 \<and> (159 / 2 :: rat) \<le> 79) \<or>
      ((40 :: rat) \<le> 159 / 2 \<and> (159 / 2 :: rat) \<le> 59) \<or>
      ((20 :: rat) \<le> 159 / 2 \<and> (159 / 2 :: rat) \<le> 39) \<or> (159 / 2 :: rat) \<le> 19)"
  by (simp add: signals_of_args_def no_arguments_def or_num_def or_bool_def
      estimate_ai_visibility_def estimateScore_def num_ge_def Math_min_def Math_max_def
      rating_of_def Let_def)

section \<open>Dispatch and registry\<close>

text \<open>
  C8. For every tool name that is not the name of one of the four registered tools, and
  for every arguments object (also an absent one), \<^verbatim>\<open>callTool\<close> throws the error whose
  message is \<^verbatim>\<open>Unknown tool: \<close> followed by that name; the request is answered by that
  failure and by no result.
\<close>

theorem unknown_tool_error:
  "n \<notin> set (map name listTools) \<Longrightarrow>
   callTool n a = Inl (Error (''Unknown tool: '' @ n)) \<and>
   handleRequest (CallToolRequest n a) = Failure (Error (''Unknown tool: '' @ n))"
  by (simp add: listTools_def callTool_def handleRequest_def)

text \<open>The theorem at the name \<^verbatim>\<open>nonexistent_tool\<close> with the empty arguments object.\<close>

theorem unknown_tool_error_witness:
  "''nonexistent_tool'' \<notin> set (map name listTools) \<and>
   callTool ''nonexistent_tool'' (Some no_arguments) =
     Inl (Error ''Unknown tool: nonexistent_tool'') \<and>
   handleRequest (CallToolRequest ''nonexistent_tool'' (Some no_arguments)) =
     Failure (Error ''Unknown tool: nonexistent_tool'')"
proof -
  have h: "''nonexistent_tool'' \<notin> set (map name listTools)"
    by (simp add: listTools_def)
  show ?thesis
    using h unknown_tool_error [OF h, of "Some no_arguments"] by simp
qed

lemma serve_append: "serve (xs @ ys) = serve xs @ serve ys"
  by (induction xs) simp_all

text \<open>
  C9. \<^verbatim>\<open>listTools\<close> returns exactly four descriptors, named
  \<^verbatim>\<open>get_trustable_score\<close>, \<^verbatim>\<open>estimate_ai_visibility\<close>, \<^verbatim>\<open>get_geo_recommendations\<close>
  and \<^verbatim>\<open>explain_trustable_score\<close> in this order, and a listing request is answered with
  them after any sequence of earlier requests.
\<close>

theorem listTools_fixed:
  "map name listTools =
     [''get_trustable_score'', ''estimate_ai_visibility'', ''get_geo_recommendations'',
      ''explain_trustable_score''] \<and>
   length listTools = 4 \<and>
   handleRequest ListToolsRequest = ToolList listTools \<and>
   serve (history @ [ListToolsRequest]) = serve history @ [ToolList listTools]"
  by (simp add: serve_append handleRequest_def) (simp add: listTools_def)

end
